theory Spec2Isabelle
  imports Complex_Main
begin

section \<open>JavaScript values used by the server\<close>

text \<open>
  A JavaScript \<open>number\<close>. Every finite double is a rational, so \<open>Num\<close> covers the finite
  values (the two zeros are identified: they are equal under \<open>===\<close> and both falsy); the
  three remaining constructors are the non-finite values. Nothing below does arithmetic on
  numbers: they are only produced, compared with \<open>===\<close> and tested for truthiness.
\<close>

datatype number = Num rat | NaN | PosInfinity | NegInfinity

text \<open>\<open>a === b\<close> on two numbers: \<open>NaN\<close> is unequal to everything, itself included.\<close>

fun strict_eq :: "number \<Rightarrow> number \<Rightarrow> bool" where
  "strict_eq NaN _ = False"
| "strict_eq _ NaN = False"
| "strict_eq a b = (a = b)"

text \<open>Truthiness of a number (\<open>ToBoolean\<close>): zero and \<open>NaN\<close> are falsy.\<close>

fun truthy :: "number \<Rightarrow> bool" where
  "truthy (Num q) = (q \<noteq> 0)"
| "truthy NaN = False"
| "truthy PosInfinity = True"
| "truthy NegInfinity = True"

text \<open>
  \<open>x || d\<close> where \<open>x\<close> is a possibly undefined number (\<open>None\<close> is \<open>undefined\<close>) and
  \<open>d\<close> a number; and the same on a possibly undefined string, whose only falsy value is
  the empty string.
\<close>

definition or_number :: "number option \<Rightarrow> number \<Rightarrow> number" where
  "or_number x d = (case x of None \<Rightarrow> d | Some n \<Rightarrow> if truthy n then n else d)"

definition or_string :: "string option \<Rightarrow> string \<Rightarrow> string" where
  "or_string x d = (case x of None \<Rightarrow> d | Some s \<Rightarrow> if s \<noteq> [] then s else d)"

subsection \<open>\<open>parseInt\<close>\<close>

text \<open>
  \<open>parseInt(string, radix)\<close> as the language defines it: leading white space is dropped,
  one sign is read, the radix is checked (\<open>0\<close> means \<open>10\<close> with the hexadecimal prefix
  allowed), the longest prefix of digits of that radix is taken, and an empty prefix gives
  \<open>NaN\<close>. Strings are lists of 8-bit characters, so the white space of the model is the
  white space below code 256. The value is the exact integer; the language rounds it to
  the nearest double, which changes nothing up to \<open>2 ^ 53\<close> in absolute value.
\<close>

definition StrWhiteSpaceChar :: "char \<Rightarrow> bool" where
  "StrWhiteSpaceChar c = ((of_char c :: nat) \<in> {9, 10, 11, 12, 13, 32, 160})"

definition digitValue :: "char \<Rightarrow> int option" where
  "digitValue c =
     (let n = (of_char c :: nat) in
      if 48 \<le> n \<and> n \<le> 57 then Some (int n - 48)
      else if 97 \<le> n \<and> n \<le> 122 then Some (int n - 87)
      else if 65 \<le> n \<and> n \<le> 90 then Some (int n - 55)
      else None)"

definition isRadixDigit :: "int \<Rightarrow> char \<Rightarrow> bool" where
  "isRadixDigit R c = (case digitValue c of None \<Rightarrow> False | Some d \<Rightarrow> d < R)"

definition mathInt :: "int \<Rightarrow> string \<Rightarrow> int" where
  "mathInt R Z = foldl (\<lambda>acc c. acc * R + (case digitValue c of None \<Rightarrow> 0 | Some d \<Rightarrow> d)) 0 Z"

definition parseInt :: "string \<Rightarrow> int \<Rightarrow> number" where
  "parseInt string radix =
     (let S = dropWhile StrWhiteSpaceChar string;
          sign = (if S \<noteq> [] \<and> hd S = CHR ''-'' then - 1 else 1);
          S1 = (if S \<noteq> [] \<and> (hd S = CHR ''+'' \<or> hd S = CHR ''-'') then tl S else S)
      in if radix \<noteq> 0 \<and> (radix < 2 \<or> 36 < radix) then NaN
         else
           let stripPrefix = (radix = 0 \<or> radix = 16);
               hasPrefix = (stripPrefix \<and> (take 2 S1 = ''0x'' \<or> take 2 S1 = ''0X''));
               R = (if hasPrefix then 16 else if radix = 0 then 10 else radix);
               S2 = (if hasPrefix then drop 2 S1 else S1);
               Z = takeWhile (isRadixDigit R) S2
           in if Z = [] then NaN else Num (of_int (sign * mathInt R Z)))"

text \<open>
  The decimal notation of an integer: what \<open>res.json\<close> writes for an integral number
  below \<open>10 ^ 21\<close> in absolute value, and so what a client reads as the id of an item.
\<close>

fun digits :: "nat \<Rightarrow> string" where
  "digits n = (if n < 10 then [char_of (48 + n)] else digits (n div 10) @ [char_of (48 + n mod 10)])"

declare digits.simps [simp del]

definition decimal_of_int :: "int \<Rightarrow> string" where
  "decimal_of_int i = (if i < 0 then CHR ''-'' # digits (nat (- i)) else digits (nat i))"

subsection \<open>Array operations\<close>

text \<open>
  \<open>Array.prototype.find\<close> is \<^const>\<open>List.find\<close> (\<open>undefined\<close> is \<open>None\<close>).
  \<open>findIndex\<close> returns the first index whose element satisfies the predicate and \<open>-1\<close>
  when there is none. \<open>splice(start, deleteCount)\<close> with no inserted elements returns the removed elements together with the array that is left.
\<close>

fun findIndex :: "('a \<Rightarrow> bool) \<Rightarrow> 'a list \<Rightarrow> int" where
  "findIndex p [] = - 1"
| "findIndex p (x # xs) =
     (if p x then 0 else (let r = findIndex p xs in if r = - 1 then - 1 else r + 1))"

definition splice_arr :: "'a list \<Rightarrow> nat \<Rightarrow> nat \<Rightarrow> 'a list \<times> 'a list" where
  "splice_arr xs start deleteCount =
     (take deleteCount (drop start xs), take start xs @ drop (start + deleteCount) xs)"

section \<open>The model: \<open>src/models/item.ts\<close>\<close>

record Item =
  item_id :: number
  name :: string

text \<open>The in-memory store \<open>items\<close> is an \<open>Item list\<close>, threaded through every handler.\<close>

section \<open>Requests and responses\<close>

text \<open>
  Of a request the handlers read \<open>req.params.id\<close> and \<open>req.body\<close>. The body is
  \<open>undefined\<close> (\<open>None\<close>) when the request carried none; a body that is there is of the
  declared shape \<open>{name: string}\<close> and is given by its name.

  A response starts with status code 200. \<open>res.status(c)\<close> sets the code when \<open>c\<close> is an
  integer from 100 to 999 and raises otherwise; \<open>res.json(v)\<close> sends \<open>v\<close>. The shapes
  of value the application sends are an item, the array of items and a \<open>{message}\<close>
  object.
\<close>

record Request =
  params_id :: string
  body :: "string option"

datatype json = JItem Item | JArray "Item list" | JMessage string | JUndefined

record Response =
  statusCode :: number
  sent :: "json option"

text \<open>
  The exceptions raised while a request is served: the \<open>TypeError\<close> of reading the
  property \<open>name\<close> of an undefined body, and the error with which the response object
  refuses a status code.
\<close>

datatype thrown = BodyUndefined | InvalidStatusCode number

definition fresh_res :: Response where
  "fresh_res = \<lparr>statusCode = Num 200, sent = None\<rparr>"

definition status_set :: "number \<Rightarrow> Response \<Rightarrow> thrown + Response" where
  "status_set c res =
     (case c of
        Num q \<Rightarrow>
          if q = of_int \<lfloor>q\<rfloor> \<and> 100 \<le> q \<and> q \<le> 999 then Inr (res\<lparr>statusCode := c\<rparr>)
          else Inl (InvalidStatusCode c)
      | _ \<Rightarrow> Inl (InvalidStatusCode c))"

definition json_send :: "json \<Rightarrow> Response \<Rightarrow> Response" where
  "json_send v res = res\<lparr>sent := Some v\<rparr>"

text \<open>The chain \<open>res.status(c).json(v)\<close>.\<close>

definition status_json :: "number \<Rightarrow> json \<Rightarrow> Response \<Rightarrow> thrown + Response" where
  "status_json c v res =
     (case status_set c res of Inl e \<Rightarrow> Inl e | Inr res' \<Rightarrow> Inr (json_send v res'))"

section \<open>The controller: \<open>src/controllers/itemController.ts\<close>\<close>

text \<open>
  Each handler takes the request, the response object and the store, and returns the store
  together with what it did: it sent a response, or its \<open>try\<close> block raised and its
  \<open>catch\<close> branch passed the exception on with \<open>next(error)\<close>, for the application to
  hand it to the error middleware. \<open>createItem\<close> also takes the value of \<open>Date.now()\<close>,
  an integral number of milliseconds.
\<close>

datatype outcome = Sent Response | Next thrown

definition try_catch :: "thrown + Response \<Rightarrow> outcome" where
  "try_catch r = (case r of Inl e \<Rightarrow> Next e | Inr res \<Rightarrow> Sent res)"

definition createItem :: "int \<Rightarrow> Request \<Rightarrow> Response \<Rightarrow> Item list \<Rightarrow> Item list \<times> outcome" where
  "createItem now req res items =
     (case body req of
        None \<Rightarrow> (items, Next BodyUndefined)
      | Some name' \<Rightarrow>
          let newItem = \<lparr>item_id = Num (of_int now), name = name'\<rparr>
          in (items @ [newItem], try_catch (status_json (Num 201) (JItem newItem) res)))"

definition getItems :: "Request \<Rightarrow> Response \<Rightarrow> Item list \<Rightarrow> Item list \<times> outcome" where
  "getItems req res items = (items, Sent (json_send (JArray items) res))"

definition getItemById :: "Request \<Rightarrow> Response \<Rightarrow> Item list \<Rightarrow> Item list \<times> outcome" where
  "getItemById req res items =
     (let ident = parseInt (params_id req) 10
      in case List.find (\<lambda>i. strict_eq (item_id i) ident) items of
           None \<Rightarrow> (items, try_catch (status_json (Num 404) (JMessage ''Item not found'') res))
         | Some item \<Rightarrow> (items, Sent (json_send (JItem item) res)))"

definition updateItem :: "Request \<Rightarrow> Response \<Rightarrow> Item list \<Rightarrow> Item list \<times> outcome" where
  "updateItem req res items =
     (let ident = parseInt (params_id req) 10
      in case body req of
           None \<Rightarrow> (items, Next BodyUndefined)
         | Some name' \<Rightarrow>
             let itemIndex = findIndex (\<lambda>i. strict_eq (item_id i) ident) items
             in if itemIndex = - 1
                then (items, try_catch (status_json (Num 404) (JMessage ''Item not found'') res))
                else
                  let k = nat itemIndex;
                      items' = items[k := (items ! k)\<lparr>name := name'\<rparr>]
                  in (items', Sent (json_send (JItem (items' ! k)) res)))"

definition deleteItem :: "Request \<Rightarrow> Response \<Rightarrow> Item list \<Rightarrow> Item list \<times> outcome" where
  "deleteItem req res items =
     (let ident = parseInt (params_id req) 10;
          itemIndex = findIndex (\<lambda>i. strict_eq (item_id i) ident) items
      in if itemIndex = - 1
         then (items, try_catch (status_json (Num 404) (JMessage ''Item not found'') res))
         else
           let (removed, items') = splice_arr items (nat itemIndex) 1
           in (items',
               Sent (json_send (case removed of [] \<Rightarrow> JUndefined | d # _ \<Rightarrow> JItem d) res)))"

text \<open>A run of \<open>createItem\<close> calls, each with its own clock value and request.\<close>

fun createItems :: "(int \<times> Request) list \<Rightarrow> Item list \<Rightarrow> Item list" where
  "createItems [] items = items"
| "createItems ((now, req) # calls) items =
     createItems calls (fst (createItem now req fresh_res items))"

section \<open>The error middleware: \<open>src/middlewares/errorHandler.ts\<close>\<close>



section \<open>The configuration: \<open>src/config/config.ts\<close>\<close>

text \<open>
  \<open>process.env\<close>, as it is once \<open>dotenv.config()\<close> has loaded the \<open>.env\<close> file, is a
  map from names to strings. \<open>Number(v)\<close> of an undefined value is \<open>NaN\<close>; on a string
  it is the language's string-to-number conversion, which the configuration takes as the
  parameter \<open>StringToNumber\<close>.
\<close>

record Config =
  port :: number
  nodeEnv :: string

definition ToNumber :: "(string \<Rightarrow> number) \<Rightarrow> string option \<Rightarrow> number" where
  "ToNumber StringToNumber v = (case v of None \<Rightarrow> NaN | Some s \<Rightarrow> StringToNumber s)"

definition config :: "(string \<Rightarrow> number) \<Rightarrow> (string \<rightharpoonup> string) \<Rightarrow> Config" where
  "config StringToNumber env =
     \<lparr>port = or_number (Some (ToNumber StringToNumber (env ''PORT''))) (Num 3000),
      nodeEnv = or_string (env ''NODE_ENV'') ''development''\<rparr>"

text \<open>
  A conversion for running the configuration on a concrete environment. It is the
  language's conversion on the strings that, with white space trimmed at both ends, are
  empty (zero) or a signed decimal integer literal, and on the strings that are no numeric
  literal at all (\<open>NaN\<close>); the other numeric literals (fractions, exponents, the
  prefixed radices, \<open>Infinity\<close>) are not read by it.
\<close>

definition decimalStringToNumber :: "string \<Rightarrow> number" where
  "decimalStringToNumber s =
     (let t = rev (dropWhile StrWhiteSpaceChar (rev (dropWhile StrWhiteSpaceChar s)));
          sign = (if t \<noteq> [] \<and> hd t = CHR ''-'' then - 1 else 1);
          d = (if t \<noteq> [] \<and> (hd t = CHR ''+'' \<or> hd t = CHR ''-'') then tl t else t)
      in if t = [] then Num 0
         else if d \<noteq> [] \<and> list_all (isRadixDigit 10) d then Num (of_int (sign * mathInt 10 d))
         else NaN)"

section \<open>Properties\<close>

subsection \<open>Numbers and \<open>parseInt\<close>\<close>

lemma strict_eq_NaN: "\<not> strict_eq x NaN"
  by (cases x) simp_all

lemma digitValue_digit: "d < 10 \<Longrightarrow> digitValue (char_of (48 + d :: nat)) = Some (int d)"
  by (simp add: digitValue_def Let_def)

lemma digits_all: "c \<in> set (digits n) \<Longrightarrow> \<exists>d::nat. d < 10 \<and> c = char_of (48 + d)"
proof (induction n arbitrary: c rule: digits.induct)
  case (1 n)
  show ?case
  proof (cases "n < 10")
    case True
    then show ?thesis using "1.prems" by (auto simp: digits.simps [of n])
  next
    case False
    then have "c \<in> set (digits (n div 10)) \<or> c = char_of (48 + n mod 10)"
      using "1.prems" by (auto simp: digits.simps [of n])
    then show ?thesis
    proof
      assume "c \<in> set (digits (n div 10))"
      then show ?thesis using "1.IH" False by simp
    next
      assume "c = char_of (48 + n mod 10)"
      moreover have "n mod 10 < 10" by simp
      ultimately show ?thesis by blast
    qed
  qed
qed

lemma digits_nonempty: "digits n \<noteq> []"
  by (simp add: digits.simps [of n])

lemma mathInt_snoc:
  "mathInt R (Z @ [c]) = mathInt R Z * R + (case digitValue c of None \<Rightarrow> 0 | Some d \<Rightarrow> d)"
  by (simp add: mathInt_def)

lemma mathInt_digits: "mathInt 10 (digits n) = int n"
proof (induction n rule: digits.induct)
  case (1 n)
  show ?case
  proof (cases "n < 10")
    case True
    then show ?thesis
      using digitValue_digit [of n] by (simp add: digits.simps [of n] mathInt_def)
  next
    case False
    have "n mod 10 < 10" by simp
    then have dv: "digitValue (char_of (48 + n mod 10)) = Some (int (n mod 10))"
      by (rule digitValue_digit)
    have "mathInt 10 (digits n) = mathInt 10 (digits (n div 10)) * 10 + int (n mod 10)"
      using False dv by (simp add: digits.simps [of n] mathInt_snoc)
    also have "\<dots> = int (n div 10) * 10 + int (n mod 10)"
      using "1.IH" False by simp
    also have "\<dots> = int n"
      by (simp add: zdiv_int zmod_int)
    finally show ?thesis .
  qed
qed

lemma digit_char_props:
  fixes d :: nat
  assumes "d < 10"
  shows "isRadixDigit 10 (char_of (48 + d))"
    and "\<not> StrWhiteSpaceChar (char_of (48 + d))"
    and "char_of (48 + d) \<noteq> CHR ''-''"
    and "char_of (48 + d) \<noteq> CHR ''+''"
proof -
  show "isRadixDigit 10 (char_of (48 + d))"
    using assms by (simp add: isRadixDigit_def digitValue_digit)
  have oc: "(of_char (char_of (48 + d)) :: nat) = 48 + d"
    using assms by simp
  show "\<not> StrWhiteSpaceChar (char_of (48 + d))"
    unfolding StrWhiteSpaceChar_def oc using assms by auto
  show "char_of (48 + d) \<noteq> CHR ''-''"
  proof
    assume "char_of (48 + d) = CHR ''-''"
    then have "(of_char (char_of (48 + d)) :: nat) = of_char CHR ''-''" by (rule arg_cong)
    with oc show False by simp
  qed
  show "char_of (48 + d) \<noteq> CHR ''+''"
  proof
    assume "char_of (48 + d) = CHR ''+''"
    then have "(of_char (char_of (48 + d)) :: nat) = of_char CHR ''+''" by (rule arg_cong)
    with oc show False by simp
  qed
qed


lemma parseInt_digits:
  "parseInt (digits n) 10 = Num (of_int (int n))"
  "parseInt (CHR ''-'' # digits n) 10 = Num (of_int (- int n))"
proof -
  obtain c cs where s: "digits n = c # cs"
    using digits_nonempty [of n] by (cases "digits n") auto
  then have "c \<in> set (digits n)" by simp
  then obtain d :: nat where d: "d < 10" "c = char_of (48 + d)"
    using digits_all by blast
  have c: "\<not> StrWhiteSpaceChar c" "c \<noteq> CHR ''-''" "c \<noteq> CHR ''+''"
    using digit_char_props [OF d(1)] d(2) by simp_all
  have "\<forall>x\<in>set (digits n). isRadixDigit 10 x"
    using digits_all digit_char_props(1) by blast
  then have all: "takeWhile (isRadixDigit 10) (c # cs) = c # cs"
    unfolding s by (simp only: takeWhile_eq_all_conv)
  have val: "mathInt 10 (c # cs) = int n"
    using mathInt_digits [of n] s by simp
  show "parseInt (digits n) 10 = Num (of_int (int n))"
    unfolding s using c all val by (simp add: parseInt_def Let_def)
  have minus: "\<not> StrWhiteSpaceChar CHR ''-''"
    by (simp add: StrWhiteSpaceChar_def)
  show "parseInt (CHR ''-'' # digits n) 10 = Num (of_int (- int n))"
    unfolding s using minus all val by (simp add: parseInt_def Let_def)
qed

lemma parseInt_decimal_of_int: "parseInt (decimal_of_int i) 10 = Num (of_int i)"
proof (cases "i < 0")
  case True
  then have "parseInt (decimal_of_int i) 10 = Num (of_int (- int (nat (- i))))"
    by (simp only: decimal_of_int_def if_True parseInt_digits(2))
  then show ?thesis using True by simp
next
  case False
  then have "parseInt (decimal_of_int i) 10 = Num (of_int (int (nat i)))"
    by (simp only: decimal_of_int_def if_False parseInt_digits(1))
  then show ?thesis using False by simp
qed

subsection \<open>The array operations\<close>

lemma findIndex_ge: "- 1 \<le> findIndex p xs"
  by (induction xs) (simp_all add: Let_def)

lemma findIndex_none: "(findIndex p xs = - 1) = (\<forall>x\<in>set xs. \<not> p x)"
proof (induction xs)
  case Nil
  show ?case by simp
next
  case (Cons x xs)
  have "- 1 \<le> findIndex p xs" by (rule findIndex_ge)
  then have "findIndex p xs + 1 \<noteq> - 1" by arith
  then show ?case using Cons by (simp add: Let_def)
qed

lemma findIndex_first:
  assumes "\<forall>x\<in>set pre. \<not> p x" and "p a"
  shows "findIndex p (pre @ a # post) = int (length pre)"
  using assms by (induction pre) (simp_all add: Let_def)

lemma find_first:
  assumes "\<forall>x\<in>set pre. \<not> p x" and "p a"
  shows "List.find p (pre @ a # post) = Some a"
  using assms by (induction pre) simp_all

lemma find_absent: "\<forall>x\<in>set xs. \<not> p x \<Longrightarrow> List.find p xs = None"
  by (simp add: find_None_iff)

lemma splice_one: "splice_arr (pre @ a # post) (length pre) (Suc 0) = ([a], pre @ post)"
  by (simp add: splice_arr_def)

lemma first_match_split:
  assumes "\<exists>x\<in>set xs. p x"
  shows "\<exists>pre a post. xs = pre @ a # post \<and> (\<forall>x\<in>set pre. \<not> p x) \<and> p a"
proof -
  from assms obtain ys x zs where "xs = ys @ x # zs" "p x" "\<forall>y\<in>set ys. \<not> p y"
    using split_list_first_prop [of xs p] by blast
  then show ?thesis by blast
qed

lemma first_match_unique:
  assumes "pre @ a # post = pre' @ a' # post'"
    and "\<forall>x\<in>set pre. \<not> p x" and "p a"
    and "\<forall>x\<in>set pre'. \<not> p x" and "p a'"
  shows "pre = pre' \<and> a = a' \<and> post = post'"
  using assms
proof (induction pre arbitrary: pre')
  case Nil
  then show ?case by (cases pre') auto
next
  case (Cons x pre)
  show ?case
  proof (cases pre')
    case Nil
    with Cons.prems show ?thesis by auto
  next
    case (Cons y ys)
    with Cons.prems have "pre @ a # post = ys @ a' # post'" and "x = y"
      and "\<forall>x\<in>set pre. \<not> p x" and "\<forall>x\<in>set ys. \<not> p x"
      by simp_all
    with Cons.IH [of ys] Cons.prems(3,5) Cons show ?thesis by simp
  qed
qed

subsection \<open>The response object\<close>



lemma not_found_sent:
  "try_catch (status_json (Num 404) (JMessage ''Item not found'') fresh_res) =
     Sent \<lparr>statusCode = Num 404, sent = Some (JMessage ''Item not found'')\<rparr>"
  by (simp add: try_catch_def status_json_def status_set_def json_send_def fresh_res_def)

lemma created_sent:
  "try_catch (status_json (Num 201) v fresh_res) = Sent \<lparr>statusCode = Num 201, sent = Some v\<rparr>"
  by (simp add: try_catch_def status_json_def status_set_def json_send_def fresh_res_def)

lemma truthy_iff: "truthy n = (\<not> (n = Num 0 \<or> n = NaN))"
  by (cases n) simp_all

subsection \<open>The handlers when no item matches\<close>

lemma getItemById_absent:
  "\<forall>i\<in>set items. \<not> strict_eq (item_id i) (parseInt (params_id req) 10) \<Longrightarrow>
   getItemById req fresh_res items =
     (items, Sent \<lparr>statusCode = Num 404, sent = Some (JMessage ''Item not found'')\<rparr>)"
  by (simp add: getItemById_def find_absent not_found_sent)

lemma updateItem_absent:
  "\<forall>i\<in>set items. \<not> strict_eq (item_id i) (parseInt (params_id req) 10) \<Longrightarrow>
   updateItem req fresh_res items =
     (items,
      case body req of
        None \<Rightarrow> Next BodyUndefined
      | Some n \<Rightarrow> Sent \<lparr>statusCode = Num 404, sent = Some (JMessage ''Item not found'')\<rparr>)"
  by (simp add: updateItem_def findIndex_none not_found_sent split: option.split)

lemma deleteItem_absent:
  "\<forall>i\<in>set items. \<not> strict_eq (item_id i) (parseInt (params_id req) 10) \<Longrightarrow>
   deleteItem req fresh_res items =
     (items, Sent \<lparr>statusCode = Num 404, sent = Some (JMessage ''Item not found'')\<rparr>)"
  by (simp add: deleteItem_def findIndex_none not_found_sent)

subsection \<open>The handlers on the first matching item\<close>

lemma getItemById_first:
  assumes "\<forall>x\<in>set pre. \<not> strict_eq (item_id x) (parseInt (params_id req) 10)"
    and "strict_eq (item_id a) (parseInt (params_id req) 10)"
  shows "getItemById req fresh_res (pre @ a # post) =
           (pre @ a # post, Sent \<lparr>statusCode = Num 200, sent = Some (JItem a)\<rparr>)"
proof -
  have "List.find (\<lambda>i. strict_eq (item_id i) (parseInt (params_id req) 10)) (pre @ a # post) = Some a"
    using assms by (intro find_first)
  then show ?thesis
    by (simp add: getItemById_def fresh_res_def json_send_def)
qed

lemma updateItem_first:
  assumes "\<forall>x\<in>set pre. \<not> strict_eq (item_id x) (parseInt (params_id req) 10)"
    and "strict_eq (item_id a) (parseInt (params_id req) 10)"
    and "body req = Some n"
  shows "updateItem req fresh_res (pre @ a # post) =
           (pre @ a\<lparr>name := n\<rparr> # post,
            Sent \<lparr>statusCode = Num 200, sent = Some (JItem (a\<lparr>name := n\<rparr>))\<rparr>)"
proof -
  have "findIndex (\<lambda>i. strict_eq (item_id i) (parseInt (params_id req) 10)) (pre @ a # post)
          = int (length pre)"
    using assms(1,2) by (intro findIndex_first)
  then show ?thesis
    by (simp add: updateItem_def assms(3) fresh_res_def json_send_def Let_def)
qed

lemma deleteItem_first:
  assumes "\<forall>x\<in>set pre. \<not> strict_eq (item_id x) (parseInt (params_id req) 10)"
    and "strict_eq (item_id a) (parseInt (params_id req) 10)"
  shows "deleteItem req fresh_res (pre @ a # post) =
           (pre @ post, Sent \<lparr>statusCode = Num 200, sent = Some (JItem a)\<rparr>)"
proof -
  have "findIndex (\<lambda>i. strict_eq (item_id i) (parseInt (params_id req) 10)) (pre @ a # post)
          = int (length pre)"
    using assms by (intro findIndex_first)
  then show ?thesis
    by (simp add: deleteItem_def fresh_res_def json_send_def Let_def splice_one)
qed

subsection \<open>Creations\<close>

lemma createItem_body:
  "createItem now req fresh_res items =
     (case body req of
        None \<Rightarrow> (items, Next BodyUndefined)
      | Some n \<Rightarrow>
          (items @ [\<lparr>item_id = Num (of_int now), name = n\<rparr>],
           Sent \<lparr>statusCode = Num 201,
                 sent = Some (JItem \<lparr>item_id = Num (of_int now), name = n\<rparr>)\<rparr>))"
  by (simp add: createItem_def created_sent Let_def split: option.split)

lemma createItems_append:
  "createItems calls items =
     items @ List.map_filter
       (\<lambda>(now, req). map_option (\<lambda>n. \<lparr>item_id = Num (of_int now), name = n\<rparr>) (body req)) calls"
proof (induction calls arbitrary: items)
  case Nil
  show ?case by (simp add: List.map_filter_simps)
next
  case (Cons c calls)
  obtain now req where c: "c = (now, req)" by (cases c)
  show ?case
    unfolding c by (cases "body req") (simp_all add: Cons createItem_body List.map_filter_simps)
qed

section \<open>The claims\<close>

text \<open>
  C1. Starting from any store, after any run of \<open>createItem\<close> calls the listing handler
  answers with status 200 and the whole store: the items that were there, followed by the
  created items in the order of their creation (a call whose request has no body creates
  nothing). The listing leaves the store as it is.
\<close>

theorem getItems_after_createItems:
  "getItems req fresh_res (createItems calls items) =
     (createItems calls items,
      Sent \<lparr>statusCode = Num 200,
            sent = Some (JArray (items @
              List.map_filter
                (\<lambda>(now, r). map_option (\<lambda>n. \<lparr>item_id = Num (of_int now), name = n\<rparr>) (body r))
                calls))\<rparr>)"
  by (simp add: getItems_def createItems_append fresh_res_def json_send_def)

theorem getItems_after_createItems_witness:
  "getItems \<lparr>params_id = '''', body = None\<rparr> fresh_res
     (createItems
        [(1700000000000, \<lparr>params_id = '''', body = Some ''first''\<rparr>),
         (1700000000003, \<lparr>params_id = '''', body = None\<rparr>),
         (1700000000007, \<lparr>params_id = '''', body = Some ''second''\<rparr>)]
        [\<lparr>item_id = Num 1600000000000, name = ''old''\<rparr>]) =
     ([\<lparr>item_id = Num 1600000000000, name = ''old''\<rparr>,
       \<lparr>item_id = Num 1700000000000, name = ''first''\<rparr>,
       \<lparr>item_id = Num 1700000000007, name = ''second''\<rparr>],
      Sent \<lparr>statusCode = Num 200,
            sent = Some (JArray
              [\<lparr>item_id = Num 1600000000000, name = ''old''\<rparr>,
               \<lparr>item_id = Num 1700000000000, name = ''first''\<rparr>,
               \<lparr>item_id = Num 1700000000007, name = ''second''\<rparr>])\<rparr>)"
  using getItems_after_createItems
    [of "\<lparr>params_id = '''', body = None\<rparr>"
        "[(1700000000000, \<lparr>params_id = '''', body = Some ''first''\<rparr>),
          (1700000000003, \<lparr>params_id = '''', body = None\<rparr>),
          (1700000000007, \<lparr>params_id = '''', body = Some ''second''\<rparr>)]"
        "[\<lparr>item_id = Num 1600000000000, name = ''old''\<rparr>]"]
  by (simp add: createItem_body List.map_filter_simps)

text \<open>
  C2, as stated, fails when the store already holds an item whose id is the clock value
  of the creation: the lookup returns that older item, not the created one.
\<close>

theorem createItem_getItemById_collision:
  "snd (createItem 1700000000000 \<lparr>params_id = '''', body = Some ''X''\<rparr> fresh_res
          [\<lparr>item_id = Num 1700000000000, name = ''A''\<rparr>]) =
     Sent \<lparr>statusCode = Num 201,
           sent = Some (JItem \<lparr>item_id = Num 1700000000000, name = ''X''\<rparr>)\<rparr> \<and>
   snd (getItemById \<lparr>params_id = ''1700000000000'', body = None\<rparr> fresh_res
          (fst (createItem 1700000000000 \<lparr>params_id = '''', body = Some ''X''\<rparr> fresh_res
                  [\<lparr>item_id = Num 1700000000000, name = ''A''\<rparr>]))) =
     Sent \<lparr>statusCode = Num 200,
           sent = Some (JItem \<lparr>item_id = Num 1700000000000, name = ''A''\<rparr>)\<rparr>"
proof -
  have parsed: "parseInt ''1700000000000'' 10 = Num 1700000000000"
    by code_simp
  have created: "createItem 1700000000000 \<lparr>params_id = '''', body = Some ''X''\<rparr> fresh_res
      [\<lparr>item_id = Num 1700000000000, name = ''A''\<rparr>] =
    ([\<lparr>item_id = Num 1700000000000, name = ''A''\<rparr>,
      \<lparr>item_id = Num 1700000000000, name = ''X''\<rparr>],
     Sent \<lparr>statusCode = Num 201,
           sent = Some (JItem \<lparr>item_id = Num 1700000000000, name = ''X''\<rparr>)\<rparr>)"
    by (simp add: createItem_body)
  show ?thesis
    unfolding created by (simp add: getItemById_def parsed fresh_res_def json_send_def Let_def)
qed

text \<open>
  C2, amended. When no item of the store has the clock value of the creation as its id,
  \<open>createItem\<close> with a name followed by \<open>getItemById\<close> on a path parameter that parses
  to the created id answers with status 200 and the very item that the creation answered
  with. The decimal notation of the created id is such a path parameter, by
  \<open>parseInt_decimal_of_int\<close>.
\<close>

theorem createItem_then_getItemById:
  assumes "\<forall>i\<in>set items. \<not> strict_eq (item_id i) (Num (of_int now))"
    and "parseInt (params_id req') 10 = Num (of_int now)"
    and "body req = Some n"
  shows "snd (createItem now req fresh_res items) =
           Sent \<lparr>statusCode = Num 201,
                 sent = Some (JItem \<lparr>item_id = Num (of_int now), name = n\<rparr>)\<rparr> \<and>
         getItemById req' fresh_res (fst (createItem now req fresh_res items)) =
           (items @ [\<lparr>item_id = Num (of_int now), name = n\<rparr>],
            Sent \<lparr>statusCode = Num 200,
                  sent = Some (JItem \<lparr>item_id = Num (of_int now), name = n\<rparr>)\<rparr>)"
proof -
  let ?new = "\<lparr>item_id = Num (of_int now), name = n\<rparr>"
  have created: "createItem now req fresh_res items =
      (items @ [?new], Sent \<lparr>statusCode = Num 201, sent = Some (JItem ?new)\<rparr>)"
    by (simp add: createItem_body assms(3))
  have "\<forall>x\<in>set items. \<not> strict_eq (item_id x) (parseInt (params_id req') 10)"
    using assms(1,2) by simp
  moreover have "strict_eq (item_id ?new) (parseInt (params_id req') 10)"
    using assms(2) by simp
  ultimately have "getItemById req' fresh_res (items @ ?new # []) =
      (items @ ?new # [], Sent \<lparr>statusCode = Num 200, sent = Some (JItem ?new)\<rparr>)"
    by (rule getItemById_first)
  with created show ?thesis by simp
qed

theorem createItem_then_getItemById_witness:
  "snd (createItem 1700000000000 \<lparr>params_id = '''', body = Some ''X''\<rparr> fresh_res
          [\<lparr>item_id = Num 1600000000000, name = ''A''\<rparr>]) =
     Sent \<lparr>statusCode = Num 201,
           sent = Some (JItem \<lparr>item_id = Num 1700000000000, name = ''X''\<rparr>)\<rparr> \<and>
   getItemById \<lparr>params_id = ''1700000000000'', body = None\<rparr> fresh_res
     (fst (createItem 1700000000000 \<lparr>params_id = '''', body = Some ''X''\<rparr> fresh_res
             [\<lparr>item_id = Num 1600000000000, name = ''A''\<rparr>])) =
     ([\<lparr>item_id = Num 1600000000000, name = ''A''\<rparr>,
       \<lparr>item_id = Num 1700000000000, name = ''X''\<rparr>],
      Sent \<lparr>statusCode = Num 200,
            sent = Some (JItem \<lparr>item_id = Num 1700000000000, name = ''X''\<rparr>)\<rparr>)"
proof -
  have parsed: "parseInt ''1700000000000'' 10 = Num 1700000000000"
    by code_simp
  show ?thesis
    using createItem_then_getItemById
      [of "[\<lparr>item_id = Num 1600000000000, name = ''A''\<rparr>]" 1700000000000
          "\<lparr>params_id = ''1700000000000'', body = None\<rparr>"
          "\<lparr>params_id = '''', body = Some ''X''\<rparr>" "''X''"]
      parsed
    by simp
qed

text \<open>
  C3, as stated, fails when two items share the id, as two items created within one
  millisecond do: \<open>deleteItem\<close> removes the first of them and the lookup that follows
  finds the second.
\<close>

theorem deleteItem_getItemById_duplicate:
  "fst (deleteItem \<lparr>params_id = ''1700000000000'', body = None\<rparr> fresh_res
          [\<lparr>item_id = Num 1700000000000, name = ''a''\<rparr>,
           \<lparr>item_id = Num 1700000000000, name = ''b''\<rparr>]) =
     [\<lparr>item_id = Num 1700000000000, name = ''b''\<rparr>] \<and>
   snd (getItemById \<lparr>params_id = ''1700000000000'', body = None\<rparr> fresh_res
          (fst (deleteItem \<lparr>params_id = ''1700000000000'', body = None\<rparr> fresh_res
                  [\<lparr>item_id = Num 1700000000000, name = ''a''\<rparr>,
                   \<lparr>item_id = Num 1700000000000, name = ''b''\<rparr>]))) =
     Sent \<lparr>statusCode = Num 200,
           sent = Some (JItem \<lparr>item_id = Num 1700000000000, name = ''b''\<rparr>)\<rparr>"
proof -
  have parsed: "parseInt ''1700000000000'' 10 = Num 1700000000000"
    by code_simp
  show ?thesis
    by (simp add: deleteItem_def getItemById_def parsed splice_arr_def fresh_res_def
        json_send_def Let_def)
qed

text \<open>
  C3, amended. A store that holds an item with the requested id splits as
  \<open>pre @ a # post\<close>, where \<open>a\<close> is the first item with that id. \<open>deleteItem\<close> answers
  with status 200 and \<open>a\<close>, and leaves \<open>pre @ post\<close>: exactly one item is gone and the
  store is one item shorter. When no item of \<open>post\<close> has that id either, a following
  \<open>getItemById\<close> for the same path parameter answers 404 \<open>Item not found\<close>.
\<close>

theorem deleteItem_removes_first:
  assumes "\<exists>i\<in>set items. strict_eq (item_id i) (parseInt (params_id req) 10)"
    and "params_id req' = params_id req"
  shows "\<exists>pre a post.
           items = pre @ a # post \<and>
           (\<forall>x\<in>set pre. \<not> strict_eq (item_id x) (parseInt (params_id req) 10)) \<and>
           strict_eq (item_id a) (parseInt (params_id req) 10) \<and>
           deleteItem req fresh_res items =
             (pre @ post, Sent \<lparr>statusCode = Num 200, sent = Some (JItem a)\<rparr>) \<and>
           length (fst (deleteItem req fresh_res items)) + 1 = length items \<and>
           ((\<forall>x\<in>set post. \<not> strict_eq (item_id x) (parseInt (params_id req) 10)) \<longrightarrow>
              getItemById req' fresh_res (fst (deleteItem req fresh_res items)) =
                (pre @ post,
                 Sent \<lparr>statusCode = Num 404, sent = Some (JMessage ''Item not found'')\<rparr>))"
proof -
  let ?p = "\<lambda>i. strict_eq (item_id i) (parseInt (params_id req) 10)"
  from assms(1) obtain pre a post
    where split: "items = pre @ a # post" and pre: "\<forall>x\<in>set pre. \<not> ?p x" and a: "?p a"
    using first_match_split [of items ?p] by blast
  have del: "deleteItem req fresh_res items =
      (pre @ post, Sent \<lparr>statusCode = Num 200, sent = Some (JItem a)\<rparr>)"
    unfolding split using pre a by (rule deleteItem_first)
  have len: "length (fst (deleteItem req fresh_res items)) + 1 = length items"
    unfolding del by (simp add: split)
  have "getItemById req' fresh_res (pre @ post) =
      (pre @ post, Sent \<lparr>statusCode = Num 404, sent = Some (JMessage ''Item not found'')\<rparr>)"
    if "\<forall>x\<in>set post. \<not> ?p x"
  proof (rule getItemById_absent)
    show "\<forall>i\<in>set (pre @ post). \<not> strict_eq (item_id i) (parseInt (params_id req') 10)"
      using pre assms(2) that by auto
  qed
  then have get: "(\<forall>x\<in>set post. \<not> ?p x) \<longrightarrow>
      getItemById req' fresh_res (fst (deleteItem req fresh_res items)) =
        (pre @ post,
         Sent \<lparr>statusCode = Num 404, sent = Some (JMessage ''Item not found'')\<rparr>)"
    unfolding del by simp
  from split pre a del len get show ?thesis by blast
qed

theorem deleteItem_removes_first_witness:
  "deleteItem \<lparr>params_id = ''2'', body = None\<rparr> fresh_res
     [\<lparr>item_id = Num 1, name = ''a''\<rparr>, \<lparr>item_id = Num 2, name = ''b''\<rparr>,
      \<lparr>item_id = Num 3, name = ''c''\<rparr>] =
     ([\<lparr>item_id = Num 1, name = ''a''\<rparr>, \<lparr>item_id = Num 3, name = ''c''\<rparr>],
      Sent \<lparr>statusCode = Num 200, sent = Some (JItem \<lparr>item_id = Num 2, name = ''b''\<rparr>)\<rparr>) \<and>
   getItemById \<lparr>params_id = ''2'', body = None\<rparr> fresh_res
     (fst (deleteItem \<lparr>params_id = ''2'', body = None\<rparr> fresh_res
             [\<lparr>item_id = Num 1, name = ''a''\<rparr>, \<lparr>item_id = Num 2, name = ''b''\<rparr>,
              \<lparr>item_id = Num 3, name = ''c''\<rparr>])) =
     ([\<lparr>item_id = Num 1, name = ''a''\<rparr>, \<lparr>item_id = Num 3, name = ''c''\<rparr>],
      Sent \<lparr>statusCode = Num 404, sent = Some (JMessage ''Item not found'')\<rparr>)"
proof -
  let ?req = "\<lparr>params_id = ''2'', body = None\<rparr>"
  let ?i1 = "\<lparr>item_id = Num 1, name = ''a''\<rparr>"
  let ?i2 = "\<lparr>item_id = Num 2, name = ''b''\<rparr>"
  let ?i3 = "\<lparr>item_id = Num 3, name = ''c''\<rparr>"
  let ?p = "\<lambda>i. strict_eq (item_id i) (parseInt (params_id ?req) 10)"
  have parsed: "parseInt ''2'' 10 = Num 2"
    by code_simp
  have "\<exists>i\<in>set [?i1, ?i2, ?i3]. ?p i"
    by (simp add: parsed)
  from deleteItem_removes_first [OF this refl]
  obtain pre a post where split: "[?i1, ?i2, ?i3] = pre @ a # post"
    and pre: "\<forall>x\<in>set pre. \<not> ?p x" and a: "?p a"
    and del: "deleteItem ?req fresh_res [?i1, ?i2, ?i3] =
      (pre @ post, Sent \<lparr>statusCode = Num 200, sent = Some (JItem a)\<rparr>)"
    and get: "(\<forall>x\<in>set post. \<not> ?p x) \<longrightarrow>
      getItemById ?req fresh_res (fst (deleteItem ?req fresh_res [?i1, ?i2, ?i3])) =
        (pre @ post,
         Sent \<lparr>statusCode = Num 404, sent = Some (JMessage ''Item not found'')\<rparr>)"
    by blast
  have "[?i1] @ ?i2 # [?i3] = pre @ a # post"
    using split by simp
  moreover have "\<forall>x\<in>set [?i1]. \<not> ?p x" and "?p ?i2"
    by (simp_all add: parsed)
  ultimately have eqs: "[?i1] = pre \<and> ?i2 = a \<and> [?i3] = post"
    using pre a by (rule first_match_unique)
  then have "\<forall>x\<in>set post. \<not> ?p x"
    by (auto simp: parsed)
  with get del eqs show ?thesis
    by auto
qed

text \<open>
  C4. A store that holds an item with the requested id splits as \<open>pre @ a # post\<close>,
  where \<open>a\<close> is the first item with that id. \<open>updateItem\<close> with a name answers with
  status 200 and \<open>a\<close> with its name replaced by that name, and the store is the same
  list with that one item in the place of \<open>a\<close>: the id of the item, every other item,
  the length and the order are as before.
\<close>

theorem updateItem_changes_name_only:
  assumes "\<exists>i\<in>set items. strict_eq (item_id i) (parseInt (params_id req) 10)"
    and "body req = Some n"
  shows "\<exists>pre a post.
           items = pre @ a # post \<and>
           (\<forall>x\<in>set pre. \<not> strict_eq (item_id x) (parseInt (params_id req) 10)) \<and>
           strict_eq (item_id a) (parseInt (params_id req) 10) \<and>
           updateItem req fresh_res items =
             (pre @ \<lparr>item_id = item_id a, name = n\<rparr> # post,
              Sent \<lparr>statusCode = Num 200,
                    sent = Some (JItem \<lparr>item_id = item_id a, name = n\<rparr>)\<rparr>) \<and>
           length (fst (updateItem req fresh_res items)) = length items"
proof -
  let ?p = "\<lambda>i. strict_eq (item_id i) (parseInt (params_id req) 10)"
  from assms(1) obtain pre a post
    where split: "items = pre @ a # post" and pre: "\<forall>x\<in>set pre. \<not> ?p x" and a: "?p a"
    using first_match_split [of items ?p] by blast
  have same: "a\<lparr>name := n\<rparr> = \<lparr>item_id = item_id a, name = n\<rparr>"
    by simp
  have "updateItem req fresh_res (pre @ a # post) =
      (pre @ a\<lparr>name := n\<rparr> # post,
       Sent \<lparr>statusCode = Num 200, sent = Some (JItem (a\<lparr>name := n\<rparr>))\<rparr>)"
    using pre a assms(2) by (rule updateItem_first)
  then have upd: "updateItem req fresh_res items =
      (pre @ \<lparr>item_id = item_id a, name = n\<rparr> # post,
       Sent \<lparr>statusCode = Num 200,
             sent = Some (JItem \<lparr>item_id = item_id a, name = n\<rparr>)\<rparr>)"
    unfolding split same .
  have len: "length (fst (updateItem req fresh_res items)) = length items"
    unfolding upd by (simp add: split)
  from split pre a upd len show ?thesis by blast
qed

theorem updateItem_changes_name_only_witness:
  "updateItem \<lparr>params_id = ''2'', body = Some ''Y''\<rparr> fresh_res
     [\<lparr>item_id = Num 1, name = ''a''\<rparr>, \<lparr>item_id = Num 2, name = ''b''\<rparr>,
      \<lparr>item_id = Num 3, name = ''c''\<rparr>] =
     ([\<lparr>item_id = Num 1, name = ''a''\<rparr>, \<lparr>item_id = Num 2, name = ''Y''\<rparr>,
       \<lparr>item_id = Num 3, name = ''c''\<rparr>],
      Sent \<lparr>statusCode = Num 200, sent = Some (JItem \<lparr>item_id = Num 2, name = ''Y''\<rparr>)\<rparr>)"
proof -
  let ?req = "\<lparr>params_id = ''2'', body = Some ''Y''\<rparr>"
  let ?i1 = "\<lparr>item_id = Num 1, name = ''a''\<rparr>"
  let ?i2 = "\<lparr>item_id = Num 2, name = ''b''\<rparr>"
  let ?i3 = "\<lparr>item_id = Num 3, name = ''c''\<rparr>"
  let ?p = "\<lambda>i. strict_eq (item_id i) (parseInt (params_id ?req) 10)"
  have parsed: "parseInt ''2'' 10 = Num 2"
    by code_simp
  have "\<exists>i\<in>set [?i1, ?i2, ?i3]. ?p i"
    by (simp add: parsed)
  moreover have "body ?req = Some ''Y''"
    by simp
  ultimately obtain pre a post where split: "[?i1, ?i2, ?i3] = pre @ a # post"
    and pre: "\<forall>x\<in>set pre. \<not> ?p x" and a: "?p a"
    and upd: "updateItem ?req fresh_res [?i1, ?i2, ?i3] =
      (pre @ \<lparr>item_id = item_id a, name = ''Y''\<rparr> # post,
       Sent \<lparr>statusCode = Num 200,
             sent = Some (JItem \<lparr>item_id = item_id a, name = ''Y''\<rparr>)\<rparr>)"
    using updateItem_changes_name_only [of "[?i1, ?i2, ?i3]" ?req "''Y''"] by blast
  have "[?i1] @ ?i2 # [?i3] = pre @ a # post"
    using split by simp
  moreover have "\<forall>x\<in>set [?i1]. \<not> ?p x" and "?p ?i2"
    by (simp_all add: parsed)
  ultimately have "[?i1] = pre \<and> ?i2 = a \<and> [?i3] = post"
    using pre a by (rule first_match_unique)
  with upd show ?thesis
    by auto
qed

text \<open>
  C5, as stated, fails for \<open>updateItem\<close> on a request without a body: the handler reads
  the name of the body before it looks the id up, that read raises, and the handler passes
  the exception on instead of answering 404.
\<close>

theorem updateItem_absent_id_no_body:
  "updateItem \<lparr>params_id = ''999999'', body = None\<rparr> fresh_res
     [\<lparr>item_id = Num 1700000000000, name = ''a''\<rparr>] =
     ([\<lparr>item_id = Num 1700000000000, name = ''a''\<rparr>], Next BodyUndefined) \<and>
   snd (updateItem \<lparr>params_id = ''999999'', body = None\<rparr> fresh_res
          [\<lparr>item_id = Num 1700000000000, name = ''a''\<rparr>]) \<noteq>
     Sent \<lparr>statusCode = Num 404, sent = Some (JMessage ''Item not found'')\<rparr>"
  by (simp add: updateItem_def)

text \<open>
  C5, amended. When no item of the store has the id that the path parameter parses to,
  \<open>getItemById\<close> and \<open>deleteItem\<close> answer with status 404 and the body
  \<open>{"message": "Item not found"}\<close>, and so does \<open>updateItem\<close> on a request that has a
  body; on a request without a body \<open>updateItem\<close> passes the exception of reading the
  body on to the error middleware. In every case the store is left as it is.
\<close>

theorem absent_id_not_found:
  assumes "\<forall>i\<in>set items. \<not> strict_eq (item_id i) (parseInt (params_id req) 10)"
  shows "getItemById req fresh_res items =
           (items, Sent \<lparr>statusCode = Num 404, sent = Some (JMessage ''Item not found'')\<rparr>) \<and>
         deleteItem req fresh_res items =
           (items, Sent \<lparr>statusCode = Num 404, sent = Some (JMessage ''Item not found'')\<rparr>) \<and>
         updateItem req fresh_res items =
           (items,
            case body req of
              None \<Rightarrow> Next BodyUndefined
            | Some n \<Rightarrow>
                Sent \<lparr>statusCode = Num 404, sent = Some (JMessage ''Item not found'')\<rparr>)"
  using assms getItemById_absent updateItem_absent deleteItem_absent by blast

theorem absent_id_not_found_witness:
  "getItemById \<lparr>params_id = ''999999'', body = None\<rparr> fresh_res
     [\<lparr>item_id = Num 1, name = ''a''\<rparr>] =
     ([\<lparr>item_id = Num 1, name = ''a''\<rparr>],
      Sent \<lparr>statusCode = Num 404, sent = Some (JMessage ''Item not found'')\<rparr>) \<and>
   deleteItem \<lparr>params_id = ''999999'', body = None\<rparr> fresh_res
     [\<lparr>item_id = Num 1, name = ''a''\<rparr>] =
     ([\<lparr>item_id = Num 1, name = ''a''\<rparr>],
      Sent \<lparr>statusCode = Num 404, sent = Some (JMessage ''Item not found'')\<rparr>) \<and>
   updateItem \<lparr>params_id = ''999999'', body = Some ''Y''\<rparr> fresh_res
     [\<lparr>item_id = Num 1, name = ''a''\<rparr>] =
     ([\<lparr>item_id = Num 1, name = ''a''\<rparr>],
      Sent \<lparr>statusCode = Num 404, sent = Some (JMessage ''Item not found'')\<rparr>)"
proof -
  have parsed: "parseInt ''999999'' 10 = Num 999999"
    by code_simp
  show ?thesis
    using absent_id_not_found
        [of "[\<lparr>item_id = Num 1, name = ''a''\<rparr>]" "\<lparr>params_id = ''999999'', body = None\<rparr>"]
      absent_id_not_found
        [of "[\<lparr>item_id = Num 1, name = ''a''\<rparr>]" "\<lparr>params_id = ''999999'', body = Some ''Y''\<rparr>"]
    by (simp add: parsed)
qed




text \<open>
  C7. For every store, clock value and request with a name, \<open>createItem\<close> builds the
  item whose id is the clock value and whose name is that name, leaves the store with that
  item added at the end and every earlier item in place, and answers with status 201 and
  the item. It has no other outcome.
\<close>

theorem createItem_appends:
  "createItem now \<lparr>params_id = p, body = Some n\<rparr> fresh_res items =
     (items @ [\<lparr>item_id = Num (of_int now), name = n\<rparr>],
      Sent \<lparr>statusCode = Num 201,
            sent = Some (JItem \<lparr>item_id = Num (of_int now), name = n\<rparr>)\<rparr>)"
  by (simp add: createItem_body)

theorem createItem_appends_witness:
  "createItem 1700000000000 \<lparr>params_id = '''', body = Some ''Sample Item''\<rparr> fresh_res
     [\<lparr>item_id = Num 1600000000000, name = ''old''\<rparr>] =
     ([\<lparr>item_id = Num 1600000000000, name = ''old''\<rparr>,
       \<lparr>item_id = Num 1700000000000, name = ''Sample Item''\<rparr>],
      Sent \<lparr>statusCode = Num 201,
            sent = Some (JItem \<lparr>item_id = Num 1700000000000, name = ''Sample Item''\<rparr>)\<rparr>)"
  using createItem_appends
      [of 1700000000000 "''''" "''Sample Item''"
          "[\<lparr>item_id = Num 1600000000000, name = ''old''\<rparr>]"]
  by simp

text \<open>
  C8, as stated, fails when the environment supplies a value that is falsy: with
  \<open>PORT=0\<close> a port is supplied and the port of the configuration is 3000, and with an
  empty \<open>NODE_ENV\<close> the mode is \<open>development\<close>.
\<close>

theorem config_port_zero:
  "port (config decimalStringToNumber [''PORT'' \<mapsto> ''0'']) = Num 3000 \<and>
   nodeEnv (config decimalStringToNumber [''NODE_ENV'' \<mapsto> '''']) = ''development''"
proof -
  have converted: "decimalStringToNumber ''0'' = Num 0"
    by code_simp
  show ?thesis
    by (simp add: config_def ToNumber_def or_number_def or_string_def converted)
qed

text \<open>
  C8, amended. The port of the configuration is the number that \<open>PORT\<close> converts to,
  and 3000 when the environment has no \<open>PORT\<close> or that number is zero or \<open>NaN\<close>; the
  mode is the value of \<open>NODE_ENV\<close>, and \<open>development\<close> when the environment has no
  \<open>NODE_ENV\<close> or its value is the empty string.
\<close>

theorem config_defaults:
  "config StringToNumber env =
     \<lparr>port = (case env ''PORT'' of
                None \<Rightarrow> Num 3000
              | Some s \<Rightarrow>
                  if StringToNumber s = Num 0 \<or> StringToNumber s = NaN then Num 3000
                  else StringToNumber s),
      nodeEnv = (case env ''NODE_ENV'' of
                   None \<Rightarrow> ''development''
                 | Some e \<Rightarrow> if e = [] then ''development'' else e)\<rparr>"
  by (simp add: config_def ToNumber_def or_number_def or_string_def truthy_iff
      split: option.split)

theorem config_defaults_witness:
  "config decimalStringToNumber Map.empty =
     \<lparr>port = Num 3000, nodeEnv = ''development''\<rparr> \<and>
   config decimalStringToNumber [''PORT'' \<mapsto> ''8080'', ''NODE_ENV'' \<mapsto> ''production''] =
     \<lparr>port = Num 8080, nodeEnv = ''production''\<rparr>"
proof -
  have converted: "decimalStringToNumber ''8080'' = Num 8080"
    by code_simp
  show ?thesis
    using config_defaults [of decimalStringToNumber Map.empty]
      config_defaults [of decimalStringToNumber
        "[''PORT'' \<mapsto> ''8080'', ''NODE_ENV'' \<mapsto> ''production'']"]
    by (simp add: converted)
qed

text \<open>
  C9, as stated, fails for \<open>updateItem\<close> on a request without a body: reading the name
  of the body raises before the id is looked up, and the handler passes the exception on
  instead of answering 404.
\<close>

theorem updateItem_nan_id_no_body:
  "parseInt ''abc'' 10 = NaN \<and>
   updateItem \<lparr>params_id = ''abc'', body = None\<rparr> fresh_res
     [\<lparr>item_id = Num 1700000000000, name = ''a''\<rparr>] =
     ([\<lparr>item_id = Num 1700000000000, name = ''a''\<rparr>], Next BodyUndefined)"
proof -
  have "parseInt ''abc'' 10 = NaN"
    by code_simp
  then show ?thesis
    by (simp add: updateItem_def)
qed

text \<open>
  C9, amended. When the path parameter parses to \<open>NaN\<close>, \<open>getItemById\<close> and
  \<open>deleteItem\<close> answer with status 404 and the body \<open>{"message": "Item not found"}\<close>
  and raise nothing, whatever the store holds, since \<open>NaN\<close> is unequal to every id; so
  does \<open>updateItem\<close> on a request that has a body, while on a request without a body it
  passes the exception of reading the body on to the error middleware. In every case the
  store is left as it is.
\<close>

theorem nan_id_not_found:
  assumes "parseInt (params_id req) 10 = NaN"
  shows "getItemById req fresh_res items =
           (items, Sent \<lparr>statusCode = Num 404, sent = Some (JMessage ''Item not found'')\<rparr>) \<and>
         deleteItem req fresh_res items =
           (items, Sent \<lparr>statusCode = Num 404, sent = Some (JMessage ''Item not found'')\<rparr>) \<and>
         updateItem req fresh_res items =
           (items,
            case body req of
              None \<Rightarrow> Next BodyUndefined
            | Some n \<Rightarrow>
                Sent \<lparr>statusCode = Num 404, sent = Some (JMessage ''Item not found'')\<rparr>)"
proof -
  have "\<forall>i\<in>set items. \<not> strict_eq (item_id i) (parseInt (params_id req) 10)"
    by (simp add: assms strict_eq_NaN)
  then show ?thesis
    using getItemById_absent updateItem_absent deleteItem_absent by blast
qed

theorem nan_id_not_found_witness:
  "getItemById \<lparr>params_id = ''abc'', body = None\<rparr> fresh_res
     [\<lparr>item_id = Num 1, name = ''a''\<rparr>] =
     ([\<lparr>item_id = Num 1, name = ''a''\<rparr>],
      Sent \<lparr>statusCode = Num 404, sent = Some (JMessage ''Item not found'')\<rparr>) \<and>
   deleteItem \<lparr>params_id = ''abc'', body = None\<rparr> fresh_res
     [\<lparr>item_id = Num 1, name = ''a''\<rparr>] =
     ([\<lparr>item_id = Num 1, name = ''a''\<rparr>],
      Sent \<lparr>statusCode = Num 404, sent = Some (JMessage ''Item not found'')\<rparr>) \<and>
   updateItem \<lparr>params_id = ''abc'', body = Some ''Y''\<rparr> fresh_res
     [\<lparr>item_id = Num 1, name = ''a''\<rparr>] =
     ([\<lparr>item_id = Num 1, name = ''a''\<rparr>],
      Sent \<lparr>statusCode = Num 404, sent = Some (JMessage ''Item not found'')\<rparr>)"
proof -
  have parsed: "parseInt ''abc'' 10 = NaN"
    by code_simp
  show ?thesis
    using nan_id_not_found
        [of "\<lparr>params_id = ''abc'', body = None\<rparr>" "[\<lparr>item_id = Num 1, name = ''a''\<rparr>]"]
      nan_id_not_found
        [of "\<lparr>params_id = ''abc'', body = Some ''Y''\<rparr>" "[\<lparr>item_id = Num 1, name = ''a''\<rparr>]"]
    by (simp add: parsed)
qed

text \<open>
  C10. Let the store hold two items \<open>a\<close> and \<open>b\<close> with the requested id, \<open>a\<close> being the
  first item of the store with that id and \<open>b\<close> coming anywhere after it. Then
  \<open>getItemById\<close> answers with \<open>a\<close>, \<open>updateItem\<close> with a name \<open>n\<close> renames \<open>a\<close> only
  and \<open>deleteItem\<close> removes \<open>a\<close> only: \<open>b\<close> and every other item stay as they are, in
  their order.
\<close>

theorem duplicates_first_match_only:
  assumes "\<forall>x\<in>set pre. \<not> strict_eq (item_id x) (parseInt (params_id req) 10)"
    and "strict_eq (item_id a) (parseInt (params_id req) 10)"
    and "strict_eq (item_id b) (parseInt (params_id req) 10)"
  shows "getItemById req fresh_res (pre @ a # mid @ b # post) =
           (pre @ a # mid @ b # post,
            Sent \<lparr>statusCode = Num 200, sent = Some (JItem a)\<rparr>) \<and>
         updateItem (req\<lparr>body := Some n\<rparr>) fresh_res (pre @ a # mid @ b # post) =
           (pre @ \<lparr>item_id = item_id a, name = n\<rparr> # mid @ b # post,
            Sent \<lparr>statusCode = Num 200,
                  sent = Some (JItem \<lparr>item_id = item_id a, name = n\<rparr>)\<rparr>) \<and>
         deleteItem req fresh_res (pre @ a # mid @ b # post) =
           (pre @ mid @ b # post, Sent \<lparr>statusCode = Num 200, sent = Some (JItem a)\<rparr>)"
proof -
  let ?ureq = "req\<lparr>body := Some n\<rparr>"
  have same: "a\<lparr>name := n\<rparr> = \<lparr>item_id = item_id a, name = n\<rparr>"
    by simp
  have "getItemById req fresh_res (pre @ a # (mid @ b # post)) =
      (pre @ a # (mid @ b # post), Sent \<lparr>statusCode = Num 200, sent = Some (JItem a)\<rparr>)"
    using assms(1,2) by (rule getItemById_first)
  moreover have "updateItem ?ureq fresh_res (pre @ a # (mid @ b # post)) =
      (pre @ a\<lparr>name := n\<rparr> # (mid @ b # post),
       Sent \<lparr>statusCode = Num 200, sent = Some (JItem (a\<lparr>name := n\<rparr>))\<rparr>)"
  proof (rule updateItem_first)
    show "\<forall>x\<in>set pre. \<not> strict_eq (item_id x) (parseInt (params_id ?ureq) 10)"
      using assms(1) by simp
    show "strict_eq (item_id a) (parseInt (params_id ?ureq) 10)"
      using assms(2) by simp
    show "body ?ureq = Some n"
      by simp
  qed
  moreover have "deleteItem req fresh_res (pre @ a # (mid @ b # post)) =
      (pre @ (mid @ b # post), Sent \<lparr>statusCode = Num 200, sent = Some (JItem a)\<rparr>)"
    using assms(1,2) by (rule deleteItem_first)
  ultimately show ?thesis
    unfolding same by simp
qed

theorem duplicates_first_match_only_witness:
  "getItemById \<lparr>params_id = ''7'', body = None\<rparr> fresh_res
     [\<lparr>item_id = Num 1, name = ''p''\<rparr>, \<lparr>item_id = Num 7, name = ''a''\<rparr>,
      \<lparr>item_id = Num 2, name = ''m''\<rparr>, \<lparr>item_id = Num 7, name = ''b''\<rparr>] =
     ([\<lparr>item_id = Num 1, name = ''p''\<rparr>, \<lparr>item_id = Num 7, name = ''a''\<rparr>,
       \<lparr>item_id = Num 2, name = ''m''\<rparr>, \<lparr>item_id = Num 7, name = ''b''\<rparr>],
      Sent \<lparr>statusCode = Num 200, sent = Some (JItem \<lparr>item_id = Num 7, name = ''a''\<rparr>)\<rparr>) \<and>
   updateItem \<lparr>params_id = ''7'', body = Some ''Y''\<rparr> fresh_res
     [\<lparr>item_id = Num 1, name = ''p''\<rparr>, \<lparr>item_id = Num 7, name = ''a''\<rparr>,
      \<lparr>item_id = Num 2, name = ''m''\<rparr>, \<lparr>item_id = Num 7, name = ''b''\<rparr>] =
     ([\<lparr>item_id = Num 1, name = ''p''\<rparr>, \<lparr>item_id = Num 7, name = ''Y''\<rparr>,
       \<lparr>item_id = Num 2, name = ''m''\<rparr>, \<lparr>item_id = Num 7, name = ''b''\<rparr>],
      Sent \<lparr>statusCode = Num 200, sent = Some (JItem \<lparr>item_id = Num 7, name = ''Y''\<rparr>)\<rparr>) \<and>
   deleteItem \<lparr>params_id = ''7'', body = None\<rparr> fresh_res
     [\<lparr>item_id = Num 1, name = ''p''\<rparr>, \<lparr>item_id = Num 7, name = ''a''\<rparr>,
      \<lparr>item_id = Num 2, name = ''m''\<rparr>, \<lparr>item_id = Num 7, name = ''b''\<rparr>] =
     ([\<lparr>item_id = Num 1, name = ''p''\<rparr>, \<lparr>item_id = Num 2, name = ''m''\<rparr>,
       \<lparr>item_id = Num 7, name = ''b''\<rparr>],
      Sent \<lparr>statusCode = Num 200, sent = Some (JItem \<lparr>item_id = Num 7, name = ''a''\<rparr>)\<rparr>)"
proof -
  have parsed: "parseInt ''7'' 10 = Num 7"
    by code_simp
  show ?thesis
    using duplicates_first_match_only
      [of "[\<lparr>item_id = Num 1, name = ''p''\<rparr>]" "\<lparr>params_id = ''7'', body = None\<rparr>"
          "\<lparr>item_id = Num 7, name = ''a''\<rparr>" "\<lparr>item_id = Num 7, name = ''b''\<rparr>"
          "[\<lparr>item_id = Num 2, name = ''m''\<rparr>]" "[]" "''Y''"]
    by (simp add: parsed)
qed

end
